theory Spec2Isabelle
  imports Main "HOL-Library.Word"
begin

section \<open>The BLOCC system chaincode (package bscc)\<close>

text \<open>
  A shallow embedding of the system chaincode \<open>bscc\<close>: the dispatcher \<open>Invoke\<close>, the
  initialisation \<open>Init\<close>, the event pipeline \<open>processEvent\<close> with its helpers, and the
  fork oracle \<open>CheckForkStatus\<close>. Everything the Go code does to its surroundings (the
  logger, the call stub, the file system, the approval command, the goroutine it starts)
  is made explicit: a function takes the \<open>world\<close> and returns the new one, and every call
  that leaves the package is appended to the world's \<open>trace\<close>.
\<close>

subsection \<open>Go values: byte strings, errors, panics\<close>

text \<open>A Go \<open>string\<close> and a \<open>[]byte\<close> are both sequences of bytes.\<close>

type_synonym bytes = string

datatype io_fault = EACCES | ENOTDIR | ENAMETOOLONG | EINVAL | EIO | ENOSPC

datatype errno = ENOENT | EEXIST | Fault io_fault

fun errno_text :: "errno \<Rightarrow> string" where
  "errno_text ENOENT = ''no such file or directory''"
| "errno_text EEXIST = ''file exists''"
| "errno_text (Fault EACCES) = ''permission denied''"
| "errno_text (Fault ENOTDIR) = ''not a directory''"
| "errno_text (Fault ENAMETOOLONG) = ''file name too long''"
| "errno_text (Fault EINVAL) = ''invalid argument''"
| "errno_text (Fault EIO) = ''input/output error''"
| "errno_text (Fault ENOSPC) = ''no space left on device''"

text \<open>
  An \<open>error\<close> value is either one made from a message (\<open>errors.New\<close>, or any error of a
  collaborator, known by its message) or an \<open>*os.PathError\<close> of a failed system call.
\<close>

datatype go_error = ErrorString string | PathError string string errno

fun Error :: "go_error \<Rightarrow> string" where
  "Error (ErrorString s) = s"
| "Error (PathError op path e) = op @ '' '' @ path @ '': '' @ errno_text e"

text \<open>\<open>os.IsNotExist\<close>: on Unix the only error number it accepts is \<open>ENOENT\<close>.\<close>

fun os_IsNotExist :: "go_error option \<Rightarrow> bool" where
  "os_IsNotExist (Some (PathError op path ENOENT)) = True"
| "os_IsNotExist _ = False"

text \<open>A call either returns or panics (a run-time error that unwinds the goroutine).\<close>

datatype 'a outcome = Returned 'a | Panicked string

text \<open>\<open>%d\<close> of a non-negative \<open>int\<close>.\<close>

definition digit :: "nat \<Rightarrow> char" where
  "digit d = ''0123456789'' ! d"

function show_nat :: "nat \<Rightarrow> string" where
  "show_nat n = (if n < 10 then [digit n] else show_nat (n div 10) @ [digit (n mod 10)])"
  by pat_completeness auto
termination
  by (relation "measure id") auto

declare show_nat.simps [simp del]

text \<open>\<open>xs[i]\<close> on a slice: a run-time panic when \<open>i\<close> is out of range.\<close>

definition index :: "'a list \<Rightarrow> nat \<Rightarrow> 'a outcome" where
  "index xs i =
     (if i < length xs then Returned (xs ! i)
      else Panicked (''runtime error: index out of range ['' @ show_nat i
                     @ ''] with length '' @ show_nat (length xs)))"

subsection \<open>The response of the chaincode shim\<close>

text \<open>
  \<open>pb.Response\<close> with the two constructors of the shim: \<open>shim.Success\<close> sets status
  \<open>OK = 200\<close> and the payload, \<open>shim.Error\<close> sets status \<open>ERROR = 500\<close> and the message.
\<close>

record Response =
  Status :: "32 word"
  Message :: string
  Payload :: bytes

definition shim_Success :: "bytes \<Rightarrow> Response" where
  "shim_Success payload = \<lparr>Status = 200, Message = [], Payload = payload\<rparr>"

definition shim_Error :: "string \<Rightarrow> Response" where
  "shim_Error msg = \<lparr>Status = 500, Message = msg, Payload = []\<rparr>"

subsection \<open>The data of the package and of its collaborators\<close>

text \<open>The handle of the crypto provider (\<open>bccsp.BCCSP\<close>); \<open>0\<close> is the nil interface.\<close>

type_synonym bccsp = nat

record Config =
  PeerAddress :: string
  TLSCertFile :: string
  CryptoProvider :: bccsp

text \<open>
  Modelled from the spec: the registry of ordering-service organizations
  (\<open>peer.Peer.GetOrdererInfo\<close> and the organization type, whose declarations are not among
  the sources). "Orderer registry lookup: channel id to list of organizations, each with
  an address list and root-certificate list"; the lookup may fail with an error.
\<close>

record OrdererOrg =
  Addresses :: "string list"
  RootCerts :: "bytes list"

record Peer =
  peer_CryptoProvider :: bccsp
  GetOrdererInfo :: "string \<Rightarrow> go_error + (string \<times> OrdererOrg list)"

record BSCC =
  peerInstance :: Peer
  config :: Config

text \<open>
  Modelled from the spec: the event (\<open>event.Event\<close> of the package blocc-events, not among
  the sources), "channel identifier, sensory-reading transaction identifier"; the two
  fields are the ones \<open>approveSensoryReading\<close> reads.
\<close>

record Event =
  ChannelID :: string
  SensoryTxID :: string

definition show_Event :: "Event \<Rightarrow> string" where
  "show_Event e = ''{'' @ ChannelID e @ '' '' @ SensoryTxID e @ ''}''"

record SignedProposal =
  ProposalBytes :: bytes
  Signature :: bytes

text \<open>
  The call stub, as far as \<open>Invoke\<close> uses it: the arguments and the signed proposal
  (a pointer, so possibly nil, next to an error).
\<close>

record stub =
  GetArgs :: "bytes list"
  GetSignedProposal :: "go_error + SignedProposal option"

subsection \<open>The world outside the package\<close>

datatype level = Info | Warning | LevelError

datatype sys_call =
    Stat string | Open string | Write string | Close string | Remove string

datatype goroutine = EventConsumer

datatype effect =
    Log level string
  | StubGetArgs
  | StubGetSignedProposal
  | Sys sys_call
  | Execute bccsp "string list"

text \<open>
  \<^item> \<open>environ\<close>: the process environment (\<open>os.LookupEnv\<close>);
  \<^item> \<open>files\<close>: the regular files, by path, with their contents;
  \<^item> \<open>temp_candidates\<close>: the random names \<open>ioutil.TempFile\<close> will try, in order;
  \<^item> \<open>fault\<close>: the system calls that fail for a reason of the environment (a directory
    that may not be searched, a full disk);
  \<^item> \<open>ApproveForThisPeerCmd\<close>: the result (nil or an error) of executing the approval
    command with the given crypto provider and arguments;
  \<^item> \<open>InvokedChaincodeName\<close>: the decoder \<open>protoutil.InvokedChaincodeName\<close>, from the
    bytes of a proposal to the name of the invoked chaincode or an error;
  \<^item> \<open>bus\<close>: the events published on the global event bus and not yet received;
  \<^item> \<open>goroutines\<close>: the goroutines started so far;
  \<^item> \<open>trace\<close>: the calls that left the package, oldest first.
\<close>

record world =
  environ :: "string \<rightharpoonup> string"
  files :: "string \<rightharpoonup> bytes"
  temp_candidates :: "string list"
  fault :: "sys_call \<Rightarrow> io_fault option"
  ApproveForThisPeerCmd :: "bccsp \<Rightarrow> string list \<Rightarrow> go_error option"
  InvokedChaincodeName :: "bytes \<Rightarrow> go_error + string"
  bus :: "Event list"
  goroutines :: "goroutine list"
  trace :: "effect list"

definition emit :: "effect \<Rightarrow> world \<Rightarrow> world" where
  "emit e w = w\<lparr>trace := trace w @ [e]\<rparr>"

definition logger :: "level \<Rightarrow> string \<Rightarrow> world \<Rightarrow> world" where
  "logger l msg w = emit (Log l msg) w"

text \<open>What happened between two worlds.\<close>

definition effects_since :: "world \<Rightarrow> world \<Rightarrow> effect list" where
  "effects_since w w' = drop (length (trace w)) (trace w')"

subsection \<open>System calls\<close>

text \<open>
  \<open>os.Stat\<close>: fails with the injected fault if there is one, with \<open>ENOENT\<close> if the file is
  not there, and succeeds otherwise. The file information is not used by the package.
\<close>

definition os_Stat :: "string \<Rightarrow> world \<Rightarrow> go_error option \<times> world" where
  "os_Stat name w =
     (let w' = emit (Sys (Stat name)) w in
      case fault w (Stat name) of
        Some f \<Rightarrow> (Some (PathError ''stat'' name (Fault f)), w')
      | None \<Rightarrow>
          (case files w name of
             None \<Rightarrow> (Some (PathError ''stat'' name ENOENT), w')
           | Some content \<Rightarrow> (None, w')))"

text \<open>
  \<open>ioutil.TempFile\<close>: creates, exclusively, a file with the first of at most 10000
  random names that is not taken; fails with \<open>EEXIST\<close> when all are taken, and with the
  injected fault when the temp directory cannot be written.
\<close>

definition ioutil_TempFile :: "string \<Rightarrow> string \<Rightarrow> world \<Rightarrow> (go_error + string) \<times> world" where
  "ioutil_TempFile dir pattern w =
     (case fault w (Open pattern) of
        Some f \<Rightarrow> (Inl (PathError ''open'' pattern (Fault f)), w)
      | None \<Rightarrow>
          (case find (\<lambda>p. files w p = None) (take 10000 (temp_candidates w)) of
             None \<Rightarrow> (Inl (PathError ''open'' pattern EEXIST), w)
           | Some p \<Rightarrow>
               (Inr p,
                emit (Sys (Open p))
                  (w\<lparr>files := (files w)(p \<mapsto> []),
                     temp_candidates := tl (dropWhile (\<lambda>p. files w p \<noteq> None) (temp_candidates w))\<rparr>))))"

definition File_Write :: "string \<Rightarrow> bytes \<Rightarrow> world \<Rightarrow> go_error option \<times> world" where
  "File_Write name b w =
     (let w' = emit (Sys (Write name)) w in
      case fault w (Write name) of
        Some f \<Rightarrow> (Some (PathError ''write'' name (Fault f)), w')
      | None \<Rightarrow> (None, w'\<lparr>files := (files w)(name \<mapsto> b)\<rparr>))"

definition File_Close :: "string \<Rightarrow> world \<Rightarrow> go_error option \<times> world" where
  "File_Close name w =
     (let w' = emit (Sys (Close name)) w in
      case fault w (Close name) of
        Some f \<Rightarrow> (Some (PathError ''close'' name (Fault f)), w')
      | None \<Rightarrow> (None, w'))"

definition os_Remove :: "string \<Rightarrow> world \<Rightarrow> go_error option \<times> world" where
  "os_Remove name w =
     (let w' = emit (Sys (Remove name)) w in
      case fault w (Remove name) of
        Some f \<Rightarrow> (Some (PathError ''remove'' name (Fault f)), w')
      | None \<Rightarrow>
          (case files w name of
             None \<Rightarrow> (Some (PathError ''remove'' name ENOENT), w')
           | Some content \<Rightarrow> (None, w'\<lparr>files := (files w)(name := None)\<rparr>)))"

text \<open>\<open>json.Marshal\<close> of a \<open>bool\<close>.\<close>

definition json_Marshal :: "bool \<Rightarrow> go_error + bytes" where
  "json_Marshal b = Inr (if b then ''true'' else ''false'')"

subsection \<open>The chaincode\<close>

definition New :: "Peer \<Rightarrow> BSCC" where
  "New p = \<lparr>peerInstance = p,
            config = \<lparr>PeerAddress = [], TLSCertFile = [], CryptoProvider = 0\<rparr>\<rparr>"

definition Name :: "BSCC \<Rightarrow> string" where
  "Name bscc = ''bscc''"

definition approveSensoryReading_name :: string where
  "approveSensoryReading_name = ''ApproveSensoryReading''"

definition simulateForkAttempt :: string where
  "simulateForkAttempt = ''SimulateForkAttempt''"

definition checkForkStatus :: string where
  "checkForkStatus = ''CheckForkStatus''"

definition CheckForkStatus :: "BSCC \<Rightarrow> string \<Rightarrow> world \<Rightarrow> Response \<times> world" where
  "CheckForkStatus bscc channelID w =
     (if channelID = [] then (shim_Error ''ChannelID not specified'', w)
      else
        let filename = ''/var/hyperledger/production/ledgersData/chains/chains/''
                       @ channelID @ ''/fork_info.txt'' in
        case os_Stat filename w of
          (err, w1) \<Rightarrow>
            let isForked = (if os_IsNotExist err then False else True) in
            (case json_Marshal isForked of
               Inl err \<Rightarrow>
                 let errMsg = ''BLOCC: Failed to marshal the result to JSON, error '' @ Error err
                 in (shim_Error errMsg, logger LevelError errMsg w1)
             | Inr jsonResponse \<Rightarrow> (shim_Success jsonResponse, w1)))"

definition Invoke :: "BSCC \<Rightarrow> stub \<Rightarrow> world \<Rightarrow> Response outcome \<times> world" where
  "Invoke bscc st w =
     (let args = GetArgs st; w1 = emit StubGetArgs w in
      if length args < 2 then
        (Returned (shim_Error (''Incorrect number of arguments, '' @ show_nat (length args))), w1)
      else
        let fname = args ! 0;
            w2 = logger Info (''Invoke function: '' @ fname) w1;
            w3 = emit StubGetSignedProposal w2 in
        case GetSignedProposal st of
          Inl err \<Rightarrow>
            (Returned (shim_Error (''Failed getting signed proposal from stub: ['' @ Error err @ '']'')), w3)
        | Inr None \<Rightarrow>
            (Panicked ''runtime error: invalid memory address or nil pointer dereference'', w3)
        | Inr (Some sp) \<Rightarrow>
            (case InvokedChaincodeName w (ProposalBytes sp) of
               Inl err \<Rightarrow>
                 (Returned (shim_Error (''Failed to identify the called chaincode: '' @ Error err)), w3)
             | Inr name \<Rightarrow>
                 if name \<noteq> Name bscc then
                   (Returned (shim_Error
                      (''Rejecting invoke of CSCC from another chaincode, original invocation for ''
                       @ [CHR 0x27] @ name @ [CHR 0x27])), w3)
                 else if fname = approveSensoryReading_name then
                   (let txID = args ! 1
                    in (Returned (shim_Success txID),
                        logger Info (''ApproveSensoryReading for: '' @ txID) w3))
                 else if fname = simulateForkAttempt then
                   (Returned (shim_Success []), logger Warning ''Adding a fork block!'' w3)
                 else if fname = checkForkStatus then
                   (case CheckForkStatus bscc (args ! 1) (logger Info ''Checking fork status'' w3) of
                      (r, w4) \<Rightarrow> (Returned r, w4))
                 else
                   (Returned (shim_Error (''Requested function '' @ fname @ '' not found.'')), w3)))"

subsection \<open>The event pipeline\<close>

definition gatherOrdererInfo :: "BSCC \<Rightarrow> string \<Rightarrow> (go_error + string \<times> bytes) outcome" where
  "gatherOrdererInfo bscc channelID =
     (case GetOrdererInfo (peerInstance bscc) channelID of
        Inl err \<Rightarrow> Returned (Inl err)
      | Inr (uu, ordererOrg) \<Rightarrow>
          if length ordererOrg = 0 then
            Returned (Inl (ErrorString ''No orderer organization found''))
          else
            (case ordererOrg of
               orderer # rest \<Rightarrow>
                 (case index (Addresses orderer) 0 of
                    Panicked m \<Rightarrow> Panicked m
                  | Returned address \<Rightarrow>
                      (case index (RootCerts orderer) 0 of
                         Panicked m \<Rightarrow> Panicked m
                       | Returned rootCertFile \<Rightarrow> Returned (Inr (address, rootCertFile))))
             | [] \<Rightarrow> Returned (Inl (ErrorString ''Error occurred gathering orderer info''))))"

definition createTempFile :: "BSCC \<Rightarrow> bytes \<Rightarrow> world \<Rightarrow> (go_error + string) \<times> world" where
  "createTempFile bscc rootCertFile w =
     (case ioutil_TempFile [] ''rootCertFile'' w of
        (Inl err, w1) \<Rightarrow> (Inl err, w1)
      | (Inr tempFile, w1) \<Rightarrow>
          (case File_Write tempFile rootCertFile w1 of
             (Some err, w2) \<Rightarrow> (Inl err, w2)
           | (None, w2) \<Rightarrow>
               (case File_Close tempFile w2 of
                  (Some err, w3) \<Rightarrow> (Inl err, w3)
                | (None, w3) \<Rightarrow> (Inr tempFile, w3))))"

definition removeTempFile :: "BSCC \<Rightarrow> string \<Rightarrow> world \<Rightarrow> world" where
  "removeTempFile bscc filePath w =
     (case os_Remove filePath w of
        (Some err, w1) \<Rightarrow> logger LevelError (''Failed to remove temp file: '' @ Error err) w1
      | (None, w1) \<Rightarrow> w1)"

text \<open>
  The approval command (\<open>blocc.ApproveForThisPeerCmd\<close>) is not among the sources; what it
  returns for a crypto provider and a list of arguments is a parameter, held by the
  world. The call is recorded in the trace.
\<close>

definition approveSensoryReading ::
  "BSCC \<Rightarrow> string \<Rightarrow> string \<Rightarrow> Event \<Rightarrow> world \<Rightarrow> go_error option \<times> world" where
  "approveSensoryReading bscc address rootCertFilePath event w =
     (let args = [''--ordererAddress='' @ address,
                  ''--rootCertFilePath='' @ rootCertFilePath,
                  ''--channelID='' @ ChannelID event,
                  ''--txID='' @ SensoryTxID event,
                  ''--peerAddress='' @ PeerAddress (config bscc),
                  ''--tlsRootCertFile='' @ TLSCertFile (config bscc)];
          err = ApproveForThisPeerCmd w (CryptoProvider (config bscc)) args
      in (err, emit (Execute (CryptoProvider (config bscc)) args) w))"

text \<open>The deferred \<open>removeTempFile\<close> runs when the function returns, after the approval.\<close>

definition processEvent :: "BSCC \<Rightarrow> Event \<Rightarrow> world \<Rightarrow> world outcome" where
  "processEvent bscc event w =
     (let w1 = logger Info (''BLOCC - Received approval event:'' @ show_Event event) w in
      case gatherOrdererInfo bscc (ChannelID event) of
        Panicked m \<Rightarrow> Panicked m
      | Returned (Inl err) \<Rightarrow>
          Returned (logger LevelError (''Failed to gather orderer info: '' @ Error err) w1)
      | Returned (Inr (address, rootCertFile)) \<Rightarrow>
          (case createTempFile bscc rootCertFile w1 of
             (Inl err, w2) \<Rightarrow>
               Returned (logger LevelError (''Failed to create temp file: '' @ Error err) w2)
           | (Inr rootCertFilePath, w2) \<Rightarrow>
               (case approveSensoryReading bscc address rootCertFilePath event w2 of
                  (err, w3) \<Rightarrow>
                    let w4 = (case err of
                                Some e \<Rightarrow> logger LevelError (''Failed to approve sensory reading: '' @ Error e) w3
                              | None \<Rightarrow> w3)
                    in Returned (removeTempFile bscc rootCertFilePath w4))))"

subsection \<open>Initialisation and the background consumer\<close>

text \<open>
  \<open>Init\<close> starts the goroutine first and reads the environment afterwards. The stub is
  not used.
\<close>

definition Init :: "BSCC \<Rightarrow> stub \<Rightarrow> world \<Rightarrow> Response \<times> BSCC \<times> world" where
  "Init bscc st w =
     (let w1 = logger Info ''Init BSCC'' w;
          w2 = w1\<lparr>goroutines := goroutines w1 @ [EventConsumer]\<rparr> in
      case environ w2 ''CORE_PEER_ADDRESS'' of
        None \<Rightarrow>
          (shim_Error ''CORE_PEER_ADDRESS is not set'', bscc,
           logger LevelError ''CORE_PEER_ADDRESS is not set'' w2)
      | Some peerAddress \<Rightarrow>
          (case environ w2 ''CORE_PEER_TLS_ROOTCERT_FILE'' of
             None \<Rightarrow>
               (shim_Error ''CORE_PEER_TLS_ROOTCERT_FILE is not set'', bscc,
                logger LevelError ''CORE_PEER_TLS_ROOTCERT_FILE is not set'' w2)
           | Some tlsCertFile \<Rightarrow>
               (shim_Success [],
                bscc\<lparr>config := \<lparr>PeerAddress = peerAddress,
                                 TLSCertFile = tlsCertFile,
                                 CryptoProvider = peer_CryptoProvider (peerInstance bscc)\<rparr>\<rparr>,
                w2)))"

text \<open>
  Modelled from the spec: the event source (\<open>event.GlobalEventBus\<close>, not among the
  sources): "pull-based, yields Event values", received in the order published.
  One iteration of the loop \<open>for _event := range ... { bscc.processEvent(_event) }\<close> of the
  goroutine takes the oldest event and processes it; the loop runs only once \<open>Init\<close> has
  started it, and waits while the bus is empty.
\<close>

definition publish :: "Event \<Rightarrow> world \<Rightarrow> world" where
  "publish e w = w\<lparr>bus := bus w @ [e]\<rparr>"

definition consumer_iteration :: "BSCC \<Rightarrow> world \<Rightarrow> world outcome option" where
  "consumer_iteration bscc w =
     (if EventConsumer \<in> set (goroutines w) then
        (case bus w of
           [] \<Rightarrow> None
         | e # es \<Rightarrow> Some (processEvent bscc e (w\<lparr>bus := es\<rparr>)))
      else None)"

subsection \<open>Vocabulary of the properties\<close>

text \<open>The error values and responses, under the names the specification gives them.\<close>

definition ArgumentCountError :: "nat \<Rightarrow> Response" where
  "ArgumentCountError n = shim_Error (''Incorrect number of arguments, '' @ show_nat n)"

definition IdentityMismatchError :: "string \<Rightarrow> Response" where
  "IdentityMismatchError name =
     shim_Error (''Rejecting invoke of CSCC from another chaincode, original invocation for ''
                 @ [CHR 0x27] @ name @ [CHR 0x27])"

definition NoOrdererOrgError :: go_error where
  "NoOrdererOrgError = ErrorString ''No orderer organization found''"

definition index_panic :: string where
  "index_panic = ''runtime error: index out of range [0] with length 0''"

text \<open>The path of the fork marker of a channel, as \<open>CheckForkStatus\<close> formats it.\<close>

definition marker_path :: "string \<Rightarrow> string" where
  "marker_path channelID =
     ''/var/hyperledger/production/ledgersData/chains/chains/'' @ channelID @ ''/fork_info.txt''"

text \<open>The six arguments \<open>approveSensoryReading\<close> hands to the approval command.\<close>

definition approval_args :: "BSCC \<Rightarrow> string \<Rightarrow> string \<Rightarrow> Event \<Rightarrow> string list" where
  "approval_args bscc address path event =
     [''--ordererAddress='' @ address,
      ''--rootCertFilePath='' @ path,
      ''--channelID='' @ ChannelID event,
      ''--txID='' @ SensoryTxID event,
      ''--peerAddress='' @ PeerAddress (config bscc),
      ''--tlsRootCertFile='' @ TLSCertFile (config bscc)]"

text \<open>The paths on which a trace calls \<open>os.Remove\<close>, in order.\<close>

fun removals :: "effect list \<Rightarrow> string list" where
  "removals [] = []"
| "removals (Sys (Remove p) # es) = p # removals es"
| "removals (e # es) = removals es"

subsection \<open>Example inputs\<close>

definition example_org :: OrdererOrg where
  "example_org = \<lparr>Addresses = [''orderer0:7050'', ''orderer1:7050''],
                   RootCerts = [''CERT-A'', ''CERT-B'']\<rparr>"

definition second_org :: OrdererOrg where
  "second_org = \<lparr>Addresses = [''orderer2:7050''], RootCerts = [''CERT-C'']\<rparr>"

definition bare_org :: OrdererOrg where
  "bare_org = \<lparr>Addresses = [], RootCerts = [''CERT-D'']\<rparr>"

definition certless_org :: OrdererOrg where
  "certless_org = \<lparr>Addresses = [''orderer3:7050''], RootCerts = []\<rparr>"

definition example_peer :: Peer where
  "example_peer =
     \<lparr>peer_CryptoProvider = 1,
      GetOrdererInfo = (\<lambda>channelID.
        if channelID = ''channel-7'' then Inr (''OrdererMSP'', [example_org, second_org])
        else if channelID = ''channel-0'' then Inr ([], [])
        else if channelID = ''channel-8'' then Inr (''OrdererMSP'', [certless_org])
        else if channelID = ''channel-9'' then Inr (''OrdererMSP'', [bare_org, example_org])
        else Inl (ErrorString ''channel not found''))\<rparr>"

definition example_world :: world where
  "example_world =
     \<lparr>environ = [''CORE_PEER_ADDRESS'' \<mapsto> ''peer0:7051'',
                 ''CORE_PEER_TLS_ROOTCERT_FILE'' \<mapsto> ''/tls/ca.crt''],
      files = Map.empty,
      temp_candidates = [''/tmp/rootCertFile101'', ''/tmp/rootCertFile102''],
      fault = (\<lambda>c. None),
      ApproveForThisPeerCmd = (\<lambda>cp args. None),
      InvokedChaincodeName = (\<lambda>b. if b = [] then Inl (ErrorString ''empty proposal'') else Inr b),
      bus = [],
      goroutines = [],
      trace = []\<rparr>"

text \<open>A peer started without its two environment variables.\<close>

definition bare_world :: world where
  "bare_world = example_world\<lparr>environ := Map.empty\<rparr>"

text \<open>The ledger directory of \<open>channel-7\<close> may not be searched; it holds no marker.\<close>

definition unreadable_world :: world where
  "unreadable_world =
     example_world\<lparr>fault := (\<lambda>c. if c = Stat (marker_path ''channel-7'') then Some EACCES else None)\<rparr>"

text \<open>A disk on which every \<open>stat\<close> fails with an input/output error.\<close>

definition failing_disk_world :: world where
  "failing_disk_world =
     example_world\<lparr>fault := (\<lambda>c. case c of Stat p \<Rightarrow> Some EIO | _ \<Rightarrow> None)\<rparr>"

text \<open>A disk with no space left: every write to a file fails.\<close>

definition full_disk_world :: world where
  "full_disk_world =
     example_world\<lparr>fault := (\<lambda>c. case c of Write p \<Rightarrow> Some ENOSPC | _ \<Rightarrow> None)\<rparr>"

definition example_event :: Event where
  "example_event = \<lparr>ChannelID = ''channel-7'', SensoryTxID = ''tx1''\<rparr>"

definition orphan_event :: Event where
  "orphan_event = \<lparr>ChannelID = ''channel-0'', SensoryTxID = ''tx2''\<rparr>"

definition example_stub :: stub where
  "example_stub =
     \<lparr>GetArgs = [''CheckForkStatus'', ''channel-7''],
      GetSignedProposal = Inr (Some \<lparr>ProposalBytes = ''bscc'', Signature = ''sig''\<rparr>)\<rparr>"

definition foreign_stub :: stub where
  "foreign_stub =
     \<lparr>GetArgs = [''CheckForkStatus'', ''channel-7''],
      GetSignedProposal = Inr (Some \<lparr>ProposalBytes = ''mycc'', Signature = ''sig''\<rparr>)\<rparr>"

definition foreign_short_stub :: stub where
  "foreign_short_stub =
     \<lparr>GetArgs = [''CheckForkStatus''],
      GetSignedProposal = Inr (Some \<lparr>ProposalBytes = ''mycc'', Signature = ''sig''\<rparr>)\<rparr>"

definition short_stub :: stub where
  "short_stub =
     \<lparr>GetArgs = [''ApproveSensoryReading''],
      GetSignedProposal = Inr (Some \<lparr>ProposalBytes = ''bscc'', Signature = ''sig''\<rparr>)\<rparr>"

section \<open>Properties\<close>

subsection \<open>Auxiliary facts\<close>

lemma show_nat_0: "show_nat 0 = ''0''"
  by (simp add: show_nat.simps digit_def)

lemma show_nat_1: "show_nat (Suc 0) = ''1''"
  by (simp add: show_nat.simps digit_def)

lemma index_0_Nil: "index [] 0 = Panicked index_panic"
  by (simp add: index_def index_panic_def show_nat_0)

lemma index_0_Cons: "index (x # xs) 0 = Returned x"
  by (simp add: index_def)

lemma emit_fields [simp]:
  "trace (emit e w) = trace w @ [e]"
  "files (emit e w) = files w"
  "fault (emit e w) = fault w"
  "ApproveForThisPeerCmd (emit e w) = ApproveForThisPeerCmd w"
  "temp_candidates (emit e w) = temp_candidates w"
  by (simp_all add: emit_def)

lemma logger_fields [simp]:
  "trace (logger l m w) = trace w @ [Log l m]"
  "files (logger l m w) = files w"
  "fault (logger l m w) = fault w"
  "ApproveForThisPeerCmd (logger l m w) = ApproveForThisPeerCmd w"
  "temp_candidates (logger l m w) = temp_candidates w"
  by (simp_all add: logger_def)

lemma effects_since_append: "trace w' = trace w @ es \<Longrightarrow> effects_since w w' = es"
  by (simp add: effects_since_def)

lemma removals_append: "removals (xs @ ys) = removals xs @ removals ys"
  by (induction xs rule: removals.induct) auto

subsection \<open>The dispatcher\<close>

text \<open>
  C7: for every invocation of the dispatcher with fewer than two arguments, \<open>Invoke\<close>
  returns the argument-count error and does nothing else: the only call it has made is
  the one that reads the arguments, so the signed proposal is not retrieved, the invoker
  is not identified, nothing is logged or routed, and the world is otherwise unchanged.
\<close>

theorem Invoke_too_few_arguments:
  "length (GetArgs st) < 2 \<Longrightarrow>
   Invoke bscc st w = (Returned (ArgumentCountError (length (GetArgs st))), emit StubGetArgs w)"
  by (simp add: Invoke_def ArgumentCountError_def Let_def)

theorem Invoke_too_few_arguments_witness:
  "length (GetArgs short_stub) < 2
   \<and> Invoke (New example_peer) short_stub example_world
       = (Returned (shim_Error ''Incorrect number of arguments, 1''), emit StubGetArgs example_world)"
  using Invoke_too_few_arguments [of short_stub "New example_peer" example_world]
  by (simp add: short_stub_def ArgumentCountError_def show_nat_1)

text \<open>
  C2, as amended: for every invocation with at least two arguments whose signed proposal
  names an invoked chaincode other than this unit's own name, \<open>Invoke\<close> returns the
  identity-mismatch error, whatever the function name in the first argument.
\<close>

theorem Invoke_identity_mismatch:
  assumes "2 \<le> length (GetArgs st)"
      and "GetSignedProposal st = Inr (Some sp)"
      and "InvokedChaincodeName w (ProposalBytes sp) = Inr name"
      and "name \<noteq> Name bscc"
  shows "fst (Invoke bscc st w) = Returned (IdentityMismatchError name)"
  using assms by (simp add: Invoke_def IdentityMismatchError_def Let_def)

theorem Invoke_identity_mismatch_witness:
  "2 \<le> length (GetArgs foreign_stub)
   \<and> GetSignedProposal foreign_stub = Inr (Some \<lparr>ProposalBytes = ''mycc'', Signature = ''sig''\<rparr>)
   \<and> InvokedChaincodeName example_world ''mycc'' = Inr ''mycc''
   \<and> ''mycc'' \<noteq> Name (New example_peer)
   \<and> fst (Invoke (New example_peer) foreign_stub example_world)
       = Returned (IdentityMismatchError ''mycc'')"
  using Invoke_identity_mismatch [of foreign_stub "\<lparr>ProposalBytes = ''mycc'', Signature = ''sig''\<rparr>"
          example_world "''mycc''" "New example_peer"]
  by (simp add: foreign_stub_def example_world_def Name_def)

text \<open>
  C2 as stated fails: a call with one argument whose proposal names the chaincode
  \<open>mycc\<close> is answered with the argument-count error, not the identity-mismatch error.
\<close>

theorem Invoke_identity_mismatch_short_call:
  "GetSignedProposal foreign_short_stub = Inr (Some \<lparr>ProposalBytes = ''mycc'', Signature = ''sig''\<rparr>)
   \<and> InvokedChaincodeName example_world ''mycc'' = Inr ''mycc''
   \<and> ''mycc'' \<noteq> Name (New example_peer)
   \<and> fst (Invoke (New example_peer) foreign_short_stub example_world) = Returned (ArgumentCountError 1)
   \<and> ArgumentCountError 1 \<noteq> IdentityMismatchError ''mycc''"
  by (simp add: Invoke_def foreign_short_stub_def example_world_def Name_def Let_def
        ArgumentCountError_def IdentityMismatchError_def shim_Error_def show_nat_1)

subsection \<open>The orderer resolver\<close>

text \<open>
  C5: for every event whose channel's registry lookup returns no ordering-service
  organization, the resolver returns the no-orderer-organization error and the event is
  dropped: processing returns after two log entries, without creating a temp file (the
  file system is unchanged, no system call is made) and without calling the approval
  command.
\<close>

theorem gatherOrdererInfo_no_orgs:
  assumes "GetOrdererInfo (peerInstance bscc) (ChannelID event) = Inr (x, [])"
  shows "gatherOrdererInfo bscc (ChannelID event) = Returned (Inl NoOrdererOrgError)
       \<and> (\<exists>w'. processEvent bscc event w = Returned w'
              \<and> effects_since w w' =
                  [Log Info (''BLOCC - Received approval event:'' @ show_Event event),
                   Log LevelError (''Failed to gather orderer info: '' @ Error NoOrdererOrgError)]
              \<and> files w' = files w)"
proof -
  have g: "gatherOrdererInfo bscc (ChannelID event) = Returned (Inl NoOrdererOrgError)"
    using assms by (simp add: gatherOrdererInfo_def NoOrdererOrgError_def)
  have p: "processEvent bscc event w =
           Returned (logger LevelError (''Failed to gather orderer info: '' @ Error NoOrdererOrgError)
                       (logger Info (''BLOCC - Received approval event:'' @ show_Event event) w))"
    by (simp only: processEvent_def Let_def g outcome.case sum.case)
  show ?thesis
    by (simp only: g p) (simp add: effects_since_def)
qed

theorem gatherOrdererInfo_no_orgs_witness:
  "GetOrdererInfo (peerInstance (New example_peer)) (ChannelID orphan_event) = Inr ([], [])
   \<and> gatherOrdererInfo (New example_peer) (ChannelID orphan_event) = Returned (Inl NoOrdererOrgError)
   \<and> (\<exists>w'. processEvent (New example_peer) orphan_event example_world = Returned w'
          \<and> effects_since example_world w' =
               [Log Info ''BLOCC - Received approval event:{channel-0 tx2}'',
                Log LevelError ''Failed to gather orderer info: No orderer organization found'']
          \<and> files w' = files example_world)"
  using gatherOrdererInfo_no_orgs [of "New example_peer" orphan_event "[]" example_world]
  by (simp add: New_def example_peer_def orphan_event_def show_Event_def NoOrdererOrgError_def)

text \<open>
  C6, as amended: for every channel whose registry lookup returns a non-empty list of
  organizations whose first organization lists at least one address and at least one
  root certificate, the resolver returns the first organization's first address and
  first root certificate. The result is a function of the registry result and does not
  depend on the other organizations, addresses or certificates.
\<close>

theorem gatherOrdererInfo_first_of_first:
  assumes "GetOrdererInfo (peerInstance bscc) channelID = Inr (x, org # orgs)"
      and "Addresses org = address # addresses"
      and "RootCerts org = cert # certs"
  shows "gatherOrdererInfo bscc channelID = Returned (Inr (address, cert))"
  using assms by (simp add: gatherOrdererInfo_def index_0_Cons)

theorem gatherOrdererInfo_first_of_first_witness:
  "GetOrdererInfo (peerInstance (New example_peer)) ''channel-7''
     = Inr (''OrdererMSP'', example_org # [second_org])
   \<and> Addresses example_org = ''orderer0:7050'' # [''orderer1:7050'']
   \<and> RootCerts example_org = ''CERT-A'' # [''CERT-B'']
   \<and> gatherOrdererInfo (New example_peer) ''channel-7'' = Returned (Inr (''orderer0:7050'', ''CERT-A''))"
  using gatherOrdererInfo_first_of_first [of "New example_peer" "''channel-7''" "''OrdererMSP''"
      example_org "[second_org]" "''orderer0:7050''" "[''orderer1:7050'']" "''CERT-A''" "[''CERT-B'']"]
  by (simp add: New_def example_peer_def example_org_def)

text \<open>
  C6 as stated fails: the registry returns two organizations for \<open>channel-9\<close>, the first
  of which lists no address; the resolver does not return, it panics.
\<close>

theorem gatherOrdererInfo_first_org_without_address:
  "GetOrdererInfo (peerInstance (New example_peer)) ''channel-9''
     = Inr (''OrdererMSP'', [bare_org, example_org])
   \<and> gatherOrdererInfo (New example_peer) ''channel-9'' = Panicked index_panic"
  by (simp add: gatherOrdererInfo_def New_def example_peer_def bare_org_def index_0_Nil index_0_Cons)

text \<open>
  C9: when the registry returns a non-empty list of organizations, the resolver panics
  with an index out of range (it returns no error) if the first organization has no
  address or no root certificate, and it returns normally if the first organization has
  at least one of each: the two unguarded accesses are safe exactly under that
  precondition.
\<close>

theorem gatherOrdererInfo_unguarded_index:
  assumes "GetOrdererInfo (peerInstance bscc) channelID = Inr (x, org # orgs)"
  shows "(Addresses org = [] \<or> RootCerts org = [] \<longrightarrow>
            gatherOrdererInfo bscc channelID = Panicked index_panic)
       \<and> (Addresses org \<noteq> [] \<and> RootCerts org \<noteq> [] \<longrightarrow>
            gatherOrdererInfo bscc channelID = Returned (Inr (hd (Addresses org), hd (RootCerts org))))"
  using assms
  by (cases "Addresses org"; cases "RootCerts org")
     (simp_all add: gatherOrdererInfo_def index_0_Nil index_0_Cons)

theorem gatherOrdererInfo_unguarded_index_witness:
  "GetOrdererInfo (peerInstance (New example_peer)) ''channel-8'' = Inr (''OrdererMSP'', [certless_org])
   \<and> RootCerts certless_org = []
   \<and> gatherOrdererInfo (New example_peer) ''channel-8'' = Panicked index_panic
   \<and> GetOrdererInfo (peerInstance (New example_peer)) ''channel-7''
       = Inr (''OrdererMSP'', [example_org, second_org])
   \<and> Addresses example_org \<noteq> [] \<and> RootCerts example_org \<noteq> []
   \<and> gatherOrdererInfo (New example_peer) ''channel-7'' = Returned (Inr (''orderer0:7050'', ''CERT-A''))"
  using gatherOrdererInfo_unguarded_index [of "New example_peer" "''channel-8''" "''OrdererMSP''"
          certless_org "[]"]
        gatherOrdererInfo_unguarded_index [of "New example_peer" "''channel-7''" "''OrdererMSP''"
          example_org "[second_org]"]
  by (simp add: New_def example_peer_def certless_org_def example_org_def)

subsection \<open>The fork oracle\<close>

lemma CheckForkStatus_response:
  "channelID \<noteq> [] \<Longrightarrow>
   fst (CheckForkStatus bscc channelID w) =
     shim_Success (if os_IsNotExist (fst (os_Stat (marker_path channelID) w)) then ''false'' else ''true'')"
  by (simp add: CheckForkStatus_def marker_path_def json_Marshal_def Let_def case_prod_beta)

text \<open>When \<open>stat\<close> meets no fault, the answer is the existence of the marker file.\<close>

lemma CheckForkStatus_without_fault:
  assumes "channelID \<noteq> []"
      and "fault w (Stat (marker_path channelID)) = None"
  shows "fst (CheckForkStatus bscc channelID w) =
           shim_Success (if files w (marker_path channelID) = None then ''false'' else ''true'')"
  using assms
  by (simp add: CheckForkStatus_response) (simp add: os_Stat_def Let_def split: option.splits)

text \<open>
  C10: for every non-empty channel identifier, if the existence check on the marker path
  fails with an error that is not a not-exist error, \<open>CheckForkStatus\<close> reports the
  channel as forked: a success response with the payload \<open>true\<close>, not an error.
\<close>

theorem CheckForkStatus_stat_failure:
  assumes "channelID \<noteq> []"
      and "fst (os_Stat (marker_path channelID) w) = Some err"
      and "\<not> os_IsNotExist (Some err)"
  shows "fst (CheckForkStatus bscc channelID w) = shim_Success ''true''"
  using assms by (simp add: CheckForkStatus_response)

theorem CheckForkStatus_stat_failure_witness:
  "''channel-3'' \<noteq> []
   \<and> fst (os_Stat (marker_path ''channel-3'') failing_disk_world)
       = Some (PathError ''stat'' (marker_path ''channel-3'') (Fault EIO))
   \<and> \<not> os_IsNotExist (Some (PathError ''stat'' (marker_path ''channel-3'') (Fault EIO)))
   \<and> fst (CheckForkStatus (New example_peer) ''channel-3'' failing_disk_world) = shim_Success ''true''"
  using CheckForkStatus_stat_failure [of "''channel-3''" failing_disk_world
          "PathError ''stat'' (marker_path ''channel-3'') (Fault EIO)" "New example_peer"]
  by (simp add: os_Stat_def failing_disk_world_def example_world_def Let_def)

text \<open>
  C3 at a failing input: the ledger directory of \<open>channel-7\<close> may not be searched, so
  \<open>stat\<close> fails with a permission error. No marker file exists, and \<open>CheckForkStatus\<close>
  answers \<open>true\<close>.
\<close>

theorem CheckForkStatus_absent_marker_reported_forked:
  "files unreadable_world (marker_path ''channel-7'') = None
   \<and> fst (CheckForkStatus (New example_peer) ''channel-7'' unreadable_world) = shim_Success ''true''"
  by (simp add: CheckForkStatus_def os_Stat_def json_Marshal_def Let_def marker_path_def
        unreadable_world_def example_world_def)

subsection \<open>The event pipeline\<close>

lemma find_free:
  "find (\<lambda>p. files w p = None) cs = Some path \<Longrightarrow> files w path = None"
  by (auto simp: find_Some_iff)

text \<open>Whether staging succeeds, and with which path, does not depend on the trace.\<close>

lemma createTempFile_fst_emit:
  "fst (createTempFile bscc cert (emit e w)) = fst (createTempFile bscc cert w)"
  by (simp add: createTempFile_def ioutil_TempFile_def File_Write_def File_Close_def emit_def Let_def
           split: option.splits)

text \<open>
  A successful staging creates a file that did not exist, writes the certificate into
  it and closes it; it touches no other file.
\<close>

lemma createTempFile_staged:
  assumes "fst (createTempFile bscc cert w) = Inr path"
  shows "\<exists>w'. createTempFile bscc cert w = (Inr path, w')
           \<and> trace w' = trace w @ [Sys (Open path), Sys (Write path), Sys (Close path)]
           \<and> files w' = (files w)(path \<mapsto> cert)
           \<and> files w path = None
           \<and> fault w' = fault w
           \<and> ApproveForThisPeerCmd w' = ApproveForThisPeerCmd w"
  using assms
  by (auto simp: createTempFile_def ioutil_TempFile_def File_Write_def File_Close_def emit_def Let_def
           split: option.splits dest: find_free)

lemma approveSensoryReading_eq:
  "approveSensoryReading bscc address path event w =
     (ApproveForThisPeerCmd w (CryptoProvider (config bscc)) (approval_args bscc address path event),
      emit (Execute (CryptoProvider (config bscc)) (approval_args bscc address path event)) w)"
  by (simp add: approveSensoryReading_def approval_args_def Let_def)

text \<open>The log entry of a failed approval removes nothing and changes no file.\<close>

lemma approval_log_effect:
  "\<exists>alog. trace (case err of Some e \<Rightarrow> logger LevelError (f e) w | None \<Rightarrow> w) = trace w @ alog
        \<and> removals alog = []
        \<and> files (case err of Some e \<Rightarrow> logger LevelError (f e) w | None \<Rightarrow> w) = files w
        \<and> fault (case err of Some e \<Rightarrow> logger LevelError (f e) w | None \<Rightarrow> w) = fault w"
  by (cases err) simp_all

text \<open>
  \<open>removeTempFile\<close> calls \<open>os.Remove\<close> once, on its argument; what follows in the trace
  is at most the log entry of a failure. No other file changes, and the file is gone
  unless the call meets a fault.
\<close>

lemma removeTempFile_effect:
  "\<exists>after. trace (removeTempFile bscc path w) = trace w @ Sys (Remove path) # after
        \<and> removals after = []
        \<and> (\<forall>q. q \<noteq> path \<longrightarrow> files (removeTempFile bscc path w) q = files w q)
        \<and> (fault w (Remove path) = None \<longrightarrow> files (removeTempFile bscc path w) path = None)"
  by (auto simp: removeTempFile_def os_Remove_def logger_def emit_def Let_def split: option.splits)

text \<open>
  C4: for every event whose processing has resolved the orderer and staged the
  certificate in a temp file, processing returns, and the calls it has made contain
  exactly one removal: of that temp file, after the call of the approval command,
  whatever that command returns. The temp file did not exist before the event (it is no
  other event's file), no file other than it differs after the event from before, and
  the file itself is gone when the removal meets no fault.
\<close>

theorem processEvent_removes_temp_file_once:
  assumes g: "gatherOrdererInfo bscc (ChannelID event) = Returned (Inr (address, cert))"
      and c: "fst (createTempFile bscc cert w) = Inr path"
  shows "\<exists>w' before after.
           processEvent bscc event w = Returned w'
         \<and> effects_since w w' = before
              @ Execute (CryptoProvider (config bscc)) (approval_args bscc address path event) # after
         \<and> removals before = [] \<and> removals after = [path]
         \<and> files w path = None
         \<and> (\<forall>q. q \<noteq> path \<longrightarrow> files w' q = files w q)
         \<and> (fault w (Remove path) = None \<longrightarrow> files w' path = None)"
proof -
  define m where "m = ''BLOCC - Received approval event:'' @ show_Event event"
  define w1 where "w1 = logger Info m w"
  have "fst (createTempFile bscc cert w1) = Inr path"
    using c unfolding w1_def logger_def by (simp only: createTempFile_fst_emit)
  from createTempFile_staged [OF this] obtain w2 where
    ct: "createTempFile bscc cert w1 = (Inr path, w2)"
    and t2: "trace w2 = trace w1 @ [Sys (Open path), Sys (Write path), Sys (Close path)]"
    and f2: "files w2 = (files w1)(path \<mapsto> cert)"
    and fresh: "files w1 path = None"
    and fl2: "fault w2 = fault w1"
    by blast
  define cp where "cp = CryptoProvider (config bscc)"
  define args where "args = approval_args bscc address path event"
  define w3 where "w3 = emit (Execute cp args) w2"
  define w4 where "w4 = (case ApproveForThisPeerCmd w2 cp args of
       Some e \<Rightarrow> logger LevelError (''Failed to approve sensory reading: '' @ Error e) w3
     | None \<Rightarrow> w3)"
  define w5 where "w5 = removeTempFile bscc path w4"
  have pe: "processEvent bscc event w = Returned w5"
    unfolding w5_def w4_def w3_def args_def cp_def
    using ct [unfolded w1_def m_def]
    by (simp only: processEvent_def Let_def g approveSensoryReading_eq
          outcome.case sum.case prod.case)
  from approval_log_effect [where err = "ApproveForThisPeerCmd w2 cp args" and w = w3
      and f = "\<lambda>e. ''Failed to approve sensory reading: '' @ Error e"]
  obtain alog where t4: "trace w4 = trace w3 @ alog" and ra: "removals alog = []"
    and f4: "files w4 = files w3" and fl4: "fault w4 = fault w3"
    unfolding w4_def by blast
  from removeTempFile_effect [of bscc path w4] obtain rlog where
    rl: "trace w5 = trace w4 @ Sys (Remove path) # rlog
       \<and> removals rlog = []
       \<and> (\<forall>q. q \<noteq> path \<longrightarrow> files w5 q = files w4 q)
       \<and> (fault w4 (Remove path) = None \<longrightarrow> files w5 path = None)"
    unfolding w5_def by (rule exE)
  note t5 = rl [THEN conjunct1]
  note rr = rl [THEN conjunct2, THEN conjunct1]
  note keep = rl [THEN conjunct2, THEN conjunct2, THEN conjunct1]
  note gone = rl [THEN conjunct2, THEN conjunct2, THEN conjunct2]
  have "trace w5 = trace w @ ([Log Info m, Sys (Open path), Sys (Write path), Sys (Close path)]
              @ Execute cp args # (alog @ Sys (Remove path) # rlog))"
    by (simp add: t5 t4 t2 w3_def w1_def)
  then have tr: "effects_since w w5 = [Log Info m, Sys (Open path), Sys (Write path), Sys (Close path)]
              @ Execute cp args # (alog @ Sys (Remove path) # rlog)"
    by (rule effects_since_append)
  have r1: "removals [Log Info m, Sys (Open path), Sys (Write path), Sys (Close path)] = []"
    by simp
  have r2: "removals (alog @ Sys (Remove path) # rlog) = [path]"
    by (simp add: removals_append ra rr)
  have fr: "files w path = None"
    using fresh by (simp add: w1_def)
  have k: "\<forall>q. q \<noteq> path \<longrightarrow> files w5 q = files w q"
    using keep by (simp add: f4 f2 w3_def w1_def)
  have gn: "fault w (Remove path) = None \<longrightarrow> files w5 path = None"
    using gone by (simp add: fl4 fl2 w3_def w1_def)
  show ?thesis
    apply (rule exI [of _ w5])
    apply (rule exI [of _ "[Log Info m, Sys (Open path), Sys (Write path), Sys (Close path)]"])
    apply (rule exI [of _ "alog @ Sys (Remove path) # rlog"])
    apply (intro conjI)
    apply (rule pe)
    apply (rule tr [unfolded cp_def args_def])
    apply (rule r1)
    apply (rule r2)
    apply (rule fr)
    apply (rule k)
    apply (rule gn)
    done
qed

lemma example_resolved:
  "gatherOrdererInfo (New example_peer) (ChannelID example_event)
     = Returned (Inr (''orderer0:7050'', ''CERT-A''))"
  by (simp add: gatherOrdererInfo_def New_def example_peer_def example_event_def example_org_def
        index_0_Cons)

lemma example_staged:
  "fst (createTempFile (New example_peer) ''CERT-A'' example_world) = Inr ''/tmp/rootCertFile101''"
  by (simp add: createTempFile_def ioutil_TempFile_def File_Write_def File_Close_def emit_def
        example_world_def Let_def)

theorem processEvent_removes_temp_file_once_witness:
  "gatherOrdererInfo (New example_peer) (ChannelID example_event)
     = Returned (Inr (''orderer0:7050'', ''CERT-A''))
   \<and> fst (createTempFile (New example_peer) ''CERT-A'' example_world) = Inr ''/tmp/rootCertFile101''
   \<and> (\<exists>w' before after.
        processEvent (New example_peer) example_event example_world = Returned w'
      \<and> effects_since example_world w' = before
           @ Execute (CryptoProvider (config (New example_peer)))
               (approval_args (New example_peer) ''orderer0:7050'' ''/tmp/rootCertFile101'' example_event)
             # after
      \<and> removals before = [] \<and> removals after = [''/tmp/rootCertFile101'']
      \<and> files example_world ''/tmp/rootCertFile101'' = None
      \<and> (\<forall>q. q \<noteq> ''/tmp/rootCertFile101'' \<longrightarrow> files w' q = files example_world q)
      \<and> (fault example_world (Remove ''/tmp/rootCertFile101'') = None
            \<longrightarrow> files w' ''/tmp/rootCertFile101'' = None))"
  by (rule conjI [OF example_resolved
        conjI [OF example_staged
          processEvent_removes_temp_file_once [OF example_resolved example_staged]]])

text \<open>
  The removal is scheduled only once staging has returned a path. A staging that fails
  after the file was created returns no path: the event is dropped, the file stays and
  nothing removes it.
\<close>

lemma processEvent_failed_write_leaves_file:
  "(case processEvent (New example_peer) example_event full_disk_world of
      Returned w' \<Rightarrow>
        effects_since full_disk_world w' =
          [Log Info ''BLOCC - Received approval event:{channel-7 tx1}'',
           Sys (Open ''/tmp/rootCertFile101''),
           Sys (Write ''/tmp/rootCertFile101''),
           Log LevelError
             ''Failed to create temp file: write /tmp/rootCertFile101: no space left on device'']
        \<and> files w' ''/tmp/rootCertFile101'' = Some []
    | Panicked m \<Rightarrow> False)"
  by (simp add: New_def full_disk_world_def example_world_def example_peer_def example_event_def
        example_org_def processEvent_def gatherOrdererInfo_def createTempFile_def
        ioutil_TempFile_def File_Write_def index_0_Cons show_Event_def
        logger_def emit_def effects_since_def Let_def)

subsection \<open>Initialisation\<close>

text \<open>Every call of \<open>Init\<close> starts a consumer, whatever the environment holds.\<close>

lemma Init_starts_consumer:
  "goroutines (snd (snd (Init bscc st w))) = goroutines w @ [EventConsumer]"
  by (simp add: Init_def Let_def logger_def emit_def split: option.splits)

text \<open>With both variables set, \<open>Init\<close> succeeds and stores them in the configuration.\<close>

lemma Init_populates_config:
  assumes "environ w ''CORE_PEER_ADDRESS'' = Some a"
      and "environ w ''CORE_PEER_TLS_ROOTCERT_FILE'' = Some t"
  shows "fst (Init bscc st w) = shim_Success []
       \<and> config (fst (snd (Init bscc st w)))
           = \<lparr>PeerAddress = a, TLSCertFile = t,
              CryptoProvider = peer_CryptoProvider (peerInstance bscc)\<rparr>"
  using assms by (simp add: Init_def Let_def logger_def emit_def)

text \<open>
  C1 at a failing input: the peer is started with neither environment variable set.
  \<open>Init\<close> returns the error for the missing address and leaves the configuration
  empty, but it has started the consumer; an event published afterwards is received and
  processed through the whole pipeline, and the approval command is called with an
  empty peer address and an empty TLS certificate path.
\<close>

theorem Init_without_environment_still_consumes:
  "(case Init (New example_peer) example_stub bare_world of
      (resp, bscc, w) \<Rightarrow>
        resp = shim_Error ''CORE_PEER_ADDRESS is not set''
      \<and> config bscc = \<lparr>PeerAddress = [], TLSCertFile = [], CryptoProvider = 0\<rparr>
      \<and> goroutines w = [EventConsumer]
      \<and> (case consumer_iteration bscc (publish example_event w) of
            Some (Returned w') \<Rightarrow>
              effects_since w w' =
                [Log Info ''BLOCC - Received approval event:{channel-7 tx1}'',
                 Sys (Open ''/tmp/rootCertFile101''),
                 Sys (Write ''/tmp/rootCertFile101''),
                 Sys (Close ''/tmp/rootCertFile101''),
                 Execute 0 [''--ordererAddress=orderer0:7050'',
                            ''--rootCertFilePath=/tmp/rootCertFile101'',
                            ''--channelID=channel-7'',
                            ''--txID=tx1'',
                            ''--peerAddress='',
                            ''--tlsRootCertFile=''],
                 Sys (Remove ''/tmp/rootCertFile101'')]
          | _ \<Rightarrow> False))"
  by (simp add: Init_def New_def bare_world_def example_world_def example_peer_def example_event_def
        example_org_def consumer_iteration_def publish_def processEvent_def gatherOrdererInfo_def
        createTempFile_def ioutil_TempFile_def File_Write_def File_Close_def os_Remove_def
        removeTempFile_def approveSensoryReading_def index_0_Cons show_Event_def
        logger_def emit_def effects_since_def Let_def)

end
